theory Spec2Isabelle
  imports Complex_Main "HOL-Library.Char_ord" "HOL-Library.List_Lexorder"
    "HOL-Library.Product_Lexorder"
begin

section \<open>Errors\<close>

text \<open>
  Exceptions are values. \<open>NotFoundError\<close>, \<open>UpstreamProviderError\<close> and
  \<open>IndexDimensionMismatchError\<close> are the domain errors of the backend; \<open>ValueError\<close>,
  \<open>JSONDecodeError\<close> and \<open>ZeroDivisionError\<close> are the Python built-ins that the modelled
  statements can raise; \<open>IntegrityError\<close> is what the SQLite driver raises when a write
  violates a key of the schema.
\<close>

datatype error =
    NotFoundError
  | UpstreamProviderError
  | IndexDimensionMismatchError
  | ValueError
  | JSONDecodeError
  | ZeroDivisionError
  | IntegrityError

section \<open>Evaluator: factual score\<close>

text \<open>
  The factual score of the evaluation write-up (AI generation guide, "Factual Score
  Calculation"):
  \<^verbatim>\<open>
  def _compute_factual_score(text: str, context: dict) -> float:
      canonical_facts = extract_facts(context)
      contradictions = check_contradictions(text, canonical_facts)
      base_score = 1.0
      for contradiction in contradictions:
          base_score -= 0.1
      return max(0.0, base_score)
  \<close>
  (named \<open>compute_factual_score\<close> here, since a name cannot start with an underscore).
  \<open>extract_facts\<close> and \<open>check_contradictions\<close> are helpers whose bodies are not part of
  the sources; they are parameters here. Python floats are modelled as \<open>real\<close>: the
  rounding of binary64 arithmetic is not represented.
\<close>

fun penalise :: "'c list \<Rightarrow> real \<Rightarrow> real" where
  "penalise [] base_score = base_score"
| "penalise (contradiction # rest) base_score = penalise rest (base_score - 0.1)"

definition compute_factual_score ::
  "('ctx \<Rightarrow> 'f) \<Rightarrow> (string \<Rightarrow> 'f \<Rightarrow> 'c list) \<Rightarrow> string \<Rightarrow> 'ctx \<Rightarrow> real" where
  "compute_factual_score extract_facts check_contradictions text context =
     (let canonical_facts = extract_facts context;
          contradictions = check_contradictions text canonical_facts;
          base_score = penalise contradictions 1.0
      in max 0.0 base_score)"

text \<open>
  Stand-ins for the two helpers, to run the score on an input: the context is its own
  single fact, and a fact contradicts a text that differs from it.
\<close>

definition single_fact :: "string \<Rightarrow> string list" where
  "single_fact context = [context]"

definition differing_facts :: "string \<Rightarrow> string list \<Rightarrow> string list" where
  "differing_facts text facts = filter (\<lambda>fact. fact \<noteq> text) facts"

section \<open>Evaluator: creativity score\<close>

text \<open>
  The LLM-as-judge score of the same write-up:
  \<^verbatim>\<open>
  async def score_creativity_async(text: str, llm: LLMProvider) -> float:
      prompt = f"""
      Rate the creativity and narrative quality of this text (0.0-1.0):
      {text}

      Consider: style, tone, engagement, originality.
      Return only a number between 0.0 and 1.0.
      """
      response = await llm.generate(prompt)
      return float(response.strip())
  \<close>
  The function has no \<open>try\<close> block and applies no \<open>min\<close>/\<open>max\<close>: whatever
  \<open>float\<close> returns is the score, and whatever it raises leaves the function.

  \<open>str.strip\<close> and \<open>float\<close> are Python built-ins and are modelled below on byte
  strings. \<open>float\<close> follows the grammar of the language reference
  (\<open>[sign] (floatnumber | infinity | nan)\<close>, underscores between digits allowed). A finite
  literal denotes its exact decimal value; rounding to the nearest binary64 and overflow
  to infinity are not represented. Strings are byte strings: white space and digits
  outside ASCII are not represented.
\<close>

datatype py_float = Finite real | Infinity bool | NaN

definition isspace :: "char \<Rightarrow> bool" where
  "isspace c = (c \<in> set [CHR '' '', CHR 0x09, CHR 0x0A, CHR 0x0B, CHR 0x0C, CHR 0x0D,
                         CHR 0x1C, CHR 0x1D, CHR 0x1E, CHR 0x1F])"

definition strip :: "string \<Rightarrow> string" where
  "strip s = rev (dropWhile isspace (rev (dropWhile isspace s)))"

definition isdigit :: "char \<Rightarrow> bool" where
  "isdigit c = (c \<in> set ''0123456789'')"

definition digit_value :: "char \<Rightarrow> nat" where
  "digit_value c = of_char c - 48"

definition lower :: "char \<Rightarrow> char" where
  "lower c =
     (if CHR ''A'' \<le> c \<and> c \<le> CHR ''Z'' then char_of (of_char c + (32::nat)) else c)"

text \<open>\<open>digitpart ::= digit (["_"] digit)*\<close>\<close>

fun digitpart :: "string \<Rightarrow> bool" where
  "digitpart [] = False"
| "digitpart [c] = isdigit c"
| "digitpart (c # d # r) =
     (isdigit c \<and> (if d = CHR ''_'' then digitpart r else digitpart (d # r)))"

definition in_digitpart :: "char \<Rightarrow> bool" where
  "in_digitpart c = (isdigit c \<or> c = CHR ''_'')"

definition digits_value :: "string \<Rightarrow> nat" where
  "digits_value ds =
     foldl (\<lambda>acc c. if c = CHR ''_'' then acc else 10 * acc + digit_value c) 0 ds"

definition split_sign :: "string \<Rightarrow> bool \<times> string" where
  "split_sign s =
     (case s of
        [] \<Rightarrow> (False, [])
      | c # r \<Rightarrow>
          if c = CHR ''-'' then (True, r)
          else if c = CHR ''+'' then (False, r)
          else (False, s))"

text \<open>\<open>exponent ::= ("e" | "E") [sign] digitpart\<close>; an absent exponent is 0.\<close>

definition exponent :: "string \<Rightarrow> int option" where
  "exponent s =
     (case s of
        [] \<Rightarrow> Some 0
      | c # r \<Rightarrow>
          if c = CHR ''e'' \<or> c = CHR ''E'' then
            (let (neg, ds) = split_sign r
             in if digitpart ds
                then Some (if neg then - int (digits_value ds) else int (digits_value ds))
                else None)
          else None)"

definition scale :: "nat \<Rightarrow> int \<Rightarrow> real" where
  "scale m e = (if 0 \<le> e then real m * 10 ^ nat e else real m / 10 ^ nat (- e))"

text \<open>
  \<open>floatnumber ::= number [exponent]\<close> with
  \<open>number ::= [digitpart] "." digitpart | digitpart ["."]\<close>.
\<close>

definition floatnumber :: "string \<Rightarrow> real option" where
  "floatnumber s =
     (let intpart = takeWhile in_digitpart s;
          rest = dropWhile in_digitpart s;
          point = (rest \<noteq> [] \<and> hd rest = CHR ''.'');
          fracpart = (if point then takeWhile in_digitpart (tl rest) else []);
          tail = (if point then dropWhile in_digitpart (tl rest) else rest)
      in if (intpart = [] \<or> digitpart intpart) \<and> (fracpart = [] \<or> digitpart fracpart)
            \<and> (intpart \<noteq> [] \<or> fracpart \<noteq> [])
         then (case exponent tail of
                 None \<Rightarrow> None
               | Some e \<Rightarrow>
                   Some (scale (digits_value (intpart @ fracpart))
                           (e - int (length (filter isdigit fracpart)))))
         else None)"

text \<open>\<open>float(s)\<close>: \<open>None\<close> stands for the \<open>ValueError\<close> of an unparsable string.\<close>

definition float :: "string \<Rightarrow> py_float option" where
  "float s =
     (let (neg, body) = split_sign (strip s);
          word = map lower body
      in if word = ''inf'' \<or> word = ''infinity'' then Some (Infinity neg)
         else if word = ''nan'' then Some NaN
         else (case floatnumber body of
                 None \<Rightarrow> None
               | Some x \<Rightarrow> Some (Finite (if neg then - x else x))))"

definition creativity_prompt :: "string \<Rightarrow> string" where
  "creativity_prompt text =
     [CHR 0x0A]
     @ ''    Rate the creativity and narrative quality of this text (0.0-1.0):'' @ [CHR 0x0A]
     @ ''    '' @ text @ [CHR 0x0A]
     @ ''    '' @ [CHR 0x0A]
     @ ''    Consider: style, tone, engagement, originality.'' @ [CHR 0x0A]
     @ ''    Return only a number between 0.0 and 1.0.'' @ [CHR 0x0A]
     @ ''    ''"

text \<open>
  \<open>llm_generate\<close> is the provider call \<open>llm.generate\<close>; it may fail, and its failure
  propagates.
\<close>

definition score_creativity_async ::
  "(string \<Rightarrow> error + string) \<Rightarrow> string \<Rightarrow> error + py_float" where
  "score_creativity_async llm_generate text =
     (let prompt = creativity_prompt text
      in case llm_generate prompt of
           Inl e \<Rightarrow> Inl e
         | Inr response \<Rightarrow>
             (case float (strip response) of
                None \<Rightarrow> Inl ValueError
              | Some score \<Rightarrow> Inr score))"

text \<open>A judge that answers every prompt with the same reply.\<close>

definition fixed_reply :: "string \<Rightarrow> string \<Rightarrow> error + string" where
  "fixed_reply reply prompt = Inr reply"

text \<open>A judge whose provider call fails.\<close>

definition judge_down :: "string \<Rightarrow> error + string" where
  "judge_down prompt = Inl UpstreamProviderError"

text \<open>
  What the specification describes instead: the parsed value clamped to [0,1], and the
  neutral default 0.5 for a reply that does not parse. Stated here only to compare the
  code with it.
\<close>

definition clamp01 :: "real \<Rightarrow> real" where
  "clamp01 x = max 0 (min 1 x)"

section \<open>Semantic search\<close>

text \<open>
  The search algorithm of the semantic search guide:
  \<^verbatim>\<open>
  async def semantic_search(query: str, limit: int = 10):
      query_embedding = await llm_provider.get_embedding(query)
      all_entries = await search_index_repo.get_all()
      results = []
      for entry in all_entries:
          entry_embedding = json.loads(entry.embedding_vector)
          similarity = cosine_similarity(query_embedding, entry_embedding)
          results.append({
              "entity_type": entry.entity_type,
              "entity_id": entry.entity_id,
              "name": extract_name(entry.text_blob),
              "snippet": extract_snippet(entry.text_blob, query),
              "similarity": similarity
          })
      results.sort(key=lambda x: x["similarity"], reverse=True)
      return results[:limit]
  \<close>
  A row of \<open>search_index\<close> (schema: \<open>entity_type TEXT\<close>, \<open>entity_id TEXT\<close>,
  \<open>text_blob TEXT\<close>, \<open>embedding_vector TEXT\<close> holding a JSON array, \<open>updated_at\<close>):
\<close>

record search_index_entry =
  entry_entity_type :: string
  entry_entity_id :: string
  text_blob :: string
  embedding_vector :: string
  entry_updated_at :: string

text \<open>One element of \<open>results\<close>.\<close>

record search_result =
  res_entity_type :: string
  res_entity_id :: string
  name :: string
  snippet :: string
  similarity :: real

text \<open>
  The \<open>for\<close> loop. \<open>json_loads\<close>, \<open>cosine_similarity\<close>, \<open>extract_name\<close> and
  \<open>extract_snippet\<close> are the helpers the function calls; their bodies are not in the
  sources, so they are parameters. An exception raised for one entry ends the whole search.
\<close>

fun score_entries ::
  "(string \<Rightarrow> error + real list) \<Rightarrow> (real list \<Rightarrow> real list \<Rightarrow> error + real) \<Rightarrow>
   (string \<Rightarrow> string) \<Rightarrow> (string \<Rightarrow> string \<Rightarrow> string) \<Rightarrow>
   real list \<Rightarrow> string \<Rightarrow> search_index_entry list \<Rightarrow> search_result list \<Rightarrow>
   error + search_result list" where
  "score_entries json_loads cosine_similarity extract_name extract_snippet
      query_embedding query [] results = Inr results"
| "score_entries json_loads cosine_similarity extract_name extract_snippet
      query_embedding query (entry # rest) results =
     (case json_loads (embedding_vector entry) of
        Inl e \<Rightarrow> Inl e
      | Inr entry_embedding \<Rightarrow>
          (case cosine_similarity query_embedding entry_embedding of
             Inl e \<Rightarrow> Inl e
           | Inr sim \<Rightarrow>
               score_entries json_loads cosine_similarity extract_name extract_snippet
                 query_embedding query rest
                 (results @ [\<lparr>res_entity_type = entry_entity_type entry,
                              res_entity_id = entry_entity_id entry,
                              name = extract_name (text_blob entry),
                              snippet = extract_snippet (text_blob entry) query,
                              similarity = sim\<rparr>])))"

text \<open>
  \<open>list.sort(key=..., reverse=True)\<close>: descending by key, and stable (elements with equal
  keys keep their original order, also with \<open>reverse=True\<close>).
\<close>

definition sort_reverse :: "('a \<Rightarrow> real) \<Rightarrow> 'a list \<Rightarrow> 'a list" where
  "sort_reverse key xs = sort_key (\<lambda>x. - key x) xs"

text \<open>
  The slice \<open>xs[:stop]\<close> for an \<open>int\<close>: a negative \<open>stop\<close> counts from the end.
\<close>

definition slice_to :: "'a list \<Rightarrow> int \<Rightarrow> 'a list" where
  "slice_to xs stop =
     (if 0 \<le> stop then take (nat stop) xs
      else take (nat (int (length xs) + stop)) xs)"

text \<open>
  \<open>all_entries\<close> is what \<open>search_index_repo.get_all()\<close> returned, in the order it
  returned it.
\<close>

definition semantic_search ::
  "(string \<Rightarrow> error + real list) \<Rightarrow> (string \<Rightarrow> error + real list) \<Rightarrow>
   (real list \<Rightarrow> real list \<Rightarrow> error + real) \<Rightarrow>
   (string \<Rightarrow> string) \<Rightarrow> (string \<Rightarrow> string \<Rightarrow> string) \<Rightarrow>
   search_index_entry list \<Rightarrow> string \<Rightarrow> int \<Rightarrow> error + search_result list" where
  "semantic_search get_embedding json_loads cosine_similarity extract_name extract_snippet
      all_entries query limit =
     (case get_embedding query of
        Inl e \<Rightarrow> Inl e
      | Inr query_embedding \<Rightarrow>
          (case score_entries json_loads cosine_similarity extract_name extract_snippet
                  query_embedding query all_entries [] of
             Inl e \<Rightarrow> Inl e
           | Inr results \<Rightarrow> Inr (slice_to (sort_reverse similarity results) limit)))"

text \<open>The ordering properties that a ranking may or may not have.\<close>

definition by_similarity_desc :: "search_result list \<Rightarrow> bool" where
  "by_similarity_desc rs = sorted_wrt (\<lambda>a b. similarity b \<le> similarity a) rs"

definition ties_by_entity_key :: "search_result list \<Rightarrow> bool" where
  "ties_by_entity_key rs =
     sorted_wrt (\<lambda>a b. similarity a = similarity b \<longrightarrow>
                   (res_entity_type a, res_entity_id a) \<le> (res_entity_type b, res_entity_id b)) rs"

subsection \<open>Cosine similarity\<close>

text \<open>
  Modelled from the spec: the body of \<open>cosine_similarity\<close> is not in the sources. The
  design describes it as \<open>dot(query, entry) / (|query| * |entry|)\<close>, defined as 0 when
  either norm is zero, with a dimension mismatch being the fatal
  \<open>IndexDimensionMismatchError\<close> (never truncated or padded). Division is the checked
  Python division, so that a division by zero would show as \<open>ZeroDivisionError\<close>.
\<close>

definition dot :: "real list \<Rightarrow> real list \<Rightarrow> real" where
  "dot xs ys = sum_list (map (\<lambda>(x, y). x * y) (zip xs ys))"

definition vnorm :: "real list \<Rightarrow> real" where
  "vnorm xs = sqrt (dot xs xs)"

definition divide_checked :: "real \<Rightarrow> real \<Rightarrow> error + real" where
  "divide_checked a b = (if b = 0 then Inl ZeroDivisionError else Inr (a / b))"

definition cosine_similarity :: "real list \<Rightarrow> real list \<Rightarrow> error + real" where
  "cosine_similarity query entry =
     (if length query \<noteq> length entry then Inl IndexDimensionMismatchError
      else if vnorm query = 0 \<or> vnorm entry = 0 then Inr 0
      else divide_checked (dot query entry) (vnorm query * vnorm entry))"

subsection \<open>A small index to run the search on\<close>

text \<open>
  Stand-ins for the collaborators: an embedding provider that maps every query to
  \<open>[1, 0]\<close>, a JSON reader that knows the two stored vectors, the first line of the blob
  as its name, and its first characters as the snippet.
\<close>

definition unit_embedding :: "string \<Rightarrow> error + real list" where
  "unit_embedding query = Inr [1, 0]"

definition json_loads_table :: "string \<Rightarrow> error + real list" where
  "json_loads_table s =
     (if s = ''[1.0, 0.0]'' then Inr [1, 0]
      else if s = ''[0.0, 1.0]'' then Inr [0, 1]
      else Inl JSONDecodeError)"

definition first_line :: "string \<Rightarrow> string" where
  "first_line blob = takeWhile (\<lambda>c. c \<noteq> CHR 0x0A) blob"

definition leading_snippet :: "string \<Rightarrow> string \<Rightarrow> string" where
  "leading_snippet blob query = take 8 blob"

definition episode_entry :: search_index_entry where
  "episode_entry =
     \<lparr>entry_entity_type = ''episode'', entry_entity_id = ''1'', text_blob = ''Pilot'',
      embedding_vector = ''[0.0, 1.0]'', entry_updated_at = ''2024-01-15''\<rparr>"

definition location_entry :: search_index_entry where
  "location_entry =
     \<lparr>entry_entity_type = ''location'', entry_entity_id = ''1'', text_blob = ''Earth'',
      embedding_vector = ''[1.0, 0.0]'', entry_updated_at = ''2024-01-15''\<rparr>"

definition character_entry :: search_index_entry where
  "character_entry =
     \<lparr>entry_entity_type = ''character'', entry_entity_id = ''1'', text_blob = ''Rick'',
      embedding_vector = ''[1.0, 0.0]'', entry_updated_at = ''2024-01-15''\<rparr>"

definition episode_hit :: search_result where
  "episode_hit =
     \<lparr>res_entity_type = ''episode'', res_entity_id = ''1'', name = ''Pilot'',
      snippet = ''Pilot'', similarity = 0\<rparr>"

definition location_hit :: search_result where
  "location_hit =
     \<lparr>res_entity_type = ''location'', res_entity_id = ''1'', name = ''Earth'',
      snippet = ''Earth'', similarity = 1\<rparr>"

definition character_hit :: search_result where
  "character_hit =
     \<lparr>res_entity_type = ''character'', res_entity_id = ''1'', name = ''Rick'',
      snippet = ''Rick'', similarity = 1\<rparr>"

section \<open>The generations table\<close>

text \<open>
  From the database schema:
  \<^verbatim>\<open>
  CREATE TABLE IF NOT EXISTS generations (
      generation_id TEXT PRIMARY KEY,
      entity_type TEXT NOT NULL,        -- "character" | "location" | "episode"
      entity_id TEXT NOT NULL,
      summary_text TEXT NOT NULL,
      factual_score REAL,
      creativity_score REAL,
      completeness_score REAL,
      relevance_score REAL,
      scores_status TEXT NOT NULL,       -- "INITIATED" | "GENERATED"
      created_at TEXT NOT NULL,
      updated_at TEXT NOT NULL
  );
  CREATE UNIQUE INDEX IF NOT EXISTS generations_unique_entity
  ON generations(entity_type, entity_id);
  \<close>
  (\<open>relevance_score\<close> is the column added by the migration.) The two values of
  \<open>scores_status\<close> are a datatype. The score columns hold the number the application
  writes; the application writes a placeholder instead of \<open>NULL\<close>, so \<open>NULL\<close> is not
  represented.
\<close>

datatype scores_status = INITIATED | GENERATED

record generation =
  generation_id :: string
  entity_type :: string
  entity_id :: string
  summary_text :: string
  factual_score :: real
  creativity_score :: real
  completeness_score :: real
  relevance_score :: real
  scores_status :: scores_status
  created_at :: string
  updated_at :: string

text \<open>
  The table is the list of its rows. Two rows collide when they agree on the primary key
  or on the columns of the unique index.
\<close>

definition same_entity :: "generation \<Rightarrow> generation \<Rightarrow> bool" where
  "same_entity a b = (entity_type a = entity_type b \<and> entity_id a = entity_id b)"

definition collides :: "generation \<Rightarrow> generation \<Rightarrow> bool" where
  "collides new old = (generation_id old = generation_id new \<or> same_entity old new)"

definition unique_id :: "generation list \<Rightarrow> bool" where
  "unique_id rows = distinct (map generation_id rows)"

definition unique_entity :: "generation list \<Rightarrow> bool" where
  "unique_entity rows = distinct (map (\<lambda>r. (entity_type r, entity_id r)) rows)"

text \<open>
  The writes SQLite offers on this table. \<open>INSERT\<close> fails on a collision;
  \<open>INSERT OR REPLACE\<close> deletes the colliding rows first; \<open>UPDATE ... WHERE generation_id = ?\<close>
  rewrites the matching rows and fails if the result breaks a key; \<open>DELETE\<close> removes
  them. A failed statement leaves the table as it was.
\<close>

datatype statement =
    Insert generation
  | InsertOrReplace generation
  | Update string "generation \<Rightarrow> generation"
  | Delete string

fun execute :: "statement \<Rightarrow> generation list \<Rightarrow> error + generation list" where
  "execute (Insert g) rows =
     (if list_ex (collides g) rows then Inl IntegrityError else Inr (rows @ [g]))"
| "execute (InsertOrReplace g) rows = Inr (filter (\<lambda>r. \<not> collides g r) rows @ [g])"
| "execute (Update gid f) rows =
     (let rows' = map (\<lambda>r. if generation_id r = gid then f r else r) rows
      in if unique_id rows' \<and> unique_entity rows' then Inr rows' else Inl IntegrityError)"
| "execute (Delete gid) rows = Inr (filter (\<lambda>r. generation_id r \<noteq> gid) rows)"

fun execute_all :: "statement list \<Rightarrow> generation list \<Rightarrow> generation list" where
  "execute_all [] rows = rows"
| "execute_all (s # ss) rows =
     (case execute s rows of
        Inl e \<Rightarrow> execute_all ss rows
      | Inr rows' \<Rightarrow> execute_all ss rows')"

section \<open>Two-phase generation\<close>

text \<open>
  The generation guide describes the flow ("Two-Phase Generation"):
  \<^verbatim>\<open>
  Phase 1: Immediate (Synchronous)
  1. User requests generation
  2. Fetch entity data from API
  3. Build context and prompt
  4. Call OpenAI API
  5. Save content with placeholder scores (-1)
  6. Return immediately to user
  Phase 2: Async Evaluation (Background)
  1. Job queued for evaluation
  2. Worker processes job
  3. Calculate all four scores
  4. Update content with final scores
  \<close>
  and the architecture notes show its two ends. Saving and enqueueing ("Async Evaluation
  System", "Async Job Queue Pattern"):
  \<^verbatim>\<open>
  content = GeneratedContent(
      factual_score=-1.0,  # Placeholder
      # ...
  )
  saved = await repository.save(content)

  job_queue.enqueue({
      "type": "SCORE_GENERATED_CONTENT",
      "content_id": content.id,
      "generated_text": content.output_text,
      "factual_context": context
  })
  \<close>
  and the job processor:
  \<^verbatim>\<open>
  async def process_job(job):
      if job["type"] == "SCORE_GENERATED_CONTENT":
          evaluation = evaluator.evaluate(...)
          await repository.update_scores(...)
  \<close>
\<close>

text \<open>The placeholder written for a score that has not been computed.\<close>

definition pending_sentinel :: real where
  "pending_sentinel = - 1"

text \<open>The dictionary that is enqueued.\<close>

record scoring_job =
  job_type :: string
  content_id :: string
  generated_text :: string
  factual_context :: string

text \<open>What \<open>evaluator.evaluate\<close> returns: the four scores.\<close>

record evaluation =
  factual :: real
  completeness :: real
  creativity :: real
  relevance :: real

definition valid_evaluation :: "evaluation \<Rightarrow> bool" where
  "valid_evaluation ev =
     (0 \<le> factual ev \<and> factual ev \<le> 1 \<and> 0 \<le> completeness ev \<and> completeness ev \<le> 1
      \<and> 0 \<le> creativity ev \<and> creativity ev \<le> 1 \<and> 0 \<le> relevance ev \<and> relevance ev \<le> 1)"

text \<open>
  Modelled from the spec: the content store, whose code is not in the sources.
  \<open>create\<close> persists a generation under the one-record-per-entity rule; whether a second
  record for an entity is refused or supersedes the first is left open by the design, so
  both are modelled. \<open>update(generation_id, scores)\<close> is a "single atomic write of all
  four fields plus status flip to GENERATED and refreshed updated_at".
\<close>

datatype conflict_policy = Reject | Supersede

definition create ::
  "conflict_policy \<Rightarrow> generation \<Rightarrow> generation list \<Rightarrow> error + generation list" where
  "create policy g rows =
     (case policy of
        Reject \<Rightarrow> execute (Insert g) rows
      | Supersede \<Rightarrow> execute (InsertOrReplace g) rows)"

definition write_scores :: "evaluation \<Rightarrow> string \<Rightarrow> generation \<Rightarrow> generation" where
  "write_scores ev now g =
     g\<lparr>factual_score := factual ev,
       completeness_score := completeness ev,
       creativity_score := creativity ev,
       relevance_score := relevance ev,
       scores_status := GENERATED,
       updated_at := now\<rparr>"

definition update_scores ::
  "string \<Rightarrow> evaluation \<Rightarrow> string \<Rightarrow> generation list \<Rightarrow> generation list" where
  "update_scores gid ev now rows =
     map (\<lambda>g. if generation_id g = gid then write_scores ev now g else g) rows"

text \<open>
  Modelled from the spec: the collaborators of the content generator (interfaces only in
  the design): the catalogue lookup, which fails with NotFound for an unknown entity, the
  recent notes, the prompt builder, the text-generation call, which may fail, and the
  note window K.
\<close>

record collaborators =
  getCanonical :: "string \<Rightarrow> string \<Rightarrow> string option"
  getRecent :: "string \<Rightarrow> string \<Rightarrow> nat \<Rightarrow> string list"
  build_prompt :: "string \<Rightarrow> string list \<Rightarrow> string"
  complete_text :: "string \<Rightarrow> string option"
  note_window :: nat

text \<open>
  The state of the core: the generations table, the in-process queue, and what the worker
  has logged (the job's target and the error).
\<close>

record core_state =
  store :: "generation list"
  queue :: "scoring_job list"
  worker_log :: "(string \<times> error) list"

definition initial_state :: core_state where
  "initial_state = \<lparr>store = [], queue = [], worker_log = []\<rparr>"

definition new_generation ::
  "string \<Rightarrow> string \<Rightarrow> string \<Rightarrow> string \<Rightarrow> string \<Rightarrow> generation" where
  "new_generation new_id etype eid text now =
     \<lparr>generation_id = new_id, entity_type = etype, entity_id = eid, summary_text = text,
      factual_score = pending_sentinel, creativity_score = pending_sentinel,
      completeness_score = pending_sentinel, relevance_score = pending_sentinel,
      scores_status = INITIATED, created_at = now, updated_at = now\<rparr>"

definition scoring_job_for :: "generation \<Rightarrow> string \<Rightarrow> scoring_job" where
  "scoring_job_for g context =
     \<lparr>job_type = ''SCORE_GENERATED_CONTENT'', content_id = generation_id g,
      generated_text = summary_text g, factual_context = context\<rparr>"

text \<open>
  Modelled from the spec: \<open>generate(entity_type, entity_id)\<close>, whose body is not in the
  sources. It fetches the canonical facts (\<open>NotFound\<close> for an unknown entity) and the K
  most recent notes, builds the prompt, calls the text generation (\<open>UpstreamProviderError\<close>
  if the call fails, before anything is persisted), persists a generation with status
  INITIATED and the four scores at the placeholder, enqueues the scoring job with the same
  text and context, and returns. \<open>new_id\<close> is the identifier drawn for the record and
  \<open>now\<close> the clock reading. Shutting the queue down is not represented: \<open>enqueue\<close>
  always succeeds. The result is what the caller receives and the state after
  the call.
\<close>

definition generate ::
  "collaborators \<Rightarrow> conflict_policy \<Rightarrow> string \<Rightarrow> string \<Rightarrow> string \<Rightarrow> string \<Rightarrow>
   core_state \<Rightarrow> (error + generation) \<times> core_state" where
  "generate c policy etype eid new_id now st =
     (case getCanonical c etype eid of
        None \<Rightarrow> (Inl NotFoundError, st)
      | Some facts \<Rightarrow>
          (let notes = getRecent c etype eid (note_window c);
               prompt = build_prompt c facts notes
           in case complete_text c prompt of
                None \<Rightarrow> (Inl UpstreamProviderError, st)
              | Some text \<Rightarrow>
                  (let g = new_generation new_id etype eid text now
                   in case create policy g (store st) of
                        Inl e \<Rightarrow> (Inl e, st)
                      | Inr rows \<Rightarrow>
                          (Inr g, st\<lparr>store := rows,
                                     queue := queue st @ [scoring_job_for g facts]\<rparr>))))"

text \<open>
  \<open>process_job\<close> as the architecture notes give it, with the elided arguments taken from
  the job: the evaluator is the injected dependency and may raise; the scores go to the
  record the job names.
\<close>

definition process_job ::
  "(string \<Rightarrow> string \<Rightarrow> error + evaluation) \<Rightarrow> string \<Rightarrow> scoring_job \<Rightarrow>
   generation list \<Rightarrow> error + generation list" where
  "process_job evaluate now job rows =
     (if job_type job = ''SCORE_GENERATED_CONTENT'' then
        (case evaluate (generated_text job) (factual_context job) of
           Inl e \<Rightarrow> Inl e
         | Inr ev \<Rightarrow> Inr (update_scores (content_id job) ev now rows))
      else Inr rows)"

text \<open>
  Modelled from the spec: the worker loop around \<open>process_job\<close>, whose code is not in the
  sources. A single consumer takes jobs first-in first-out; a job whose processing raises
  is logged and discarded (no retry, no re-enqueue, no dead-letter). \<open>worker_step\<close>
  handles the job at the head of the queue; \<open>run_worker\<close> drains the queue.
\<close>

definition worker_step ::
  "(string \<Rightarrow> string \<Rightarrow> error + evaluation) \<Rightarrow> string \<Rightarrow> core_state \<Rightarrow> core_state" where
  "worker_step evaluate now st =
     (case queue st of
        [] \<Rightarrow> st
      | job # rest \<Rightarrow>
          (case process_job evaluate now job (store st) of
             Inl e \<Rightarrow>
               st\<lparr>queue := rest, worker_log := worker_log st @ [(content_id job, e)]\<rparr>
           | Inr rows \<Rightarrow> st\<lparr>store := rows, queue := rest\<rparr>))"

definition run_worker ::
  "(string \<Rightarrow> string \<Rightarrow> error + evaluation) \<Rightarrow> string \<Rightarrow> core_state \<Rightarrow> core_state" where
  "run_worker evaluate now st = ((worker_step evaluate now) ^^ length (queue st)) st"



text \<open>The two shapes a record can have.\<close>

definition is_pending :: "generation \<Rightarrow> bool" where
  "is_pending g =
     (scores_status g = INITIATED
      \<and> factual_score g = pending_sentinel \<and> completeness_score g = pending_sentinel
      \<and> creativity_score g = pending_sentinel \<and> relevance_score g = pending_sentinel)"

definition is_scored :: "generation \<Rightarrow> bool" where
  "is_scored g =
     (scores_status g = GENERATED
      \<and> 0 \<le> factual_score g \<and> factual_score g \<le> 1
      \<and> 0 \<le> completeness_score g \<and> completeness_score g \<le> 1
      \<and> 0 \<le> creativity_score g \<and> creativity_score g \<le> 1
      \<and> 0 \<le> relevance_score g \<and> relevance_score g \<le> 1)"


subsection \<open>A small catalogue to run the pipeline on\<close>

text \<open>
  Stand-ins for the collaborators: a catalogue with two characters, no notes, a narrator
  that answers, a narrator that is down, and an evaluator that fails on Morty's summary
  and otherwise returns the scores of the guide's example response.
\<close>

definition catalogue :: "string \<Rightarrow> string \<Rightarrow> string option" where
  "catalogue etype eid =
     (if etype = ''character'' \<and> eid = ''1'' then Some ''Rick''
      else if etype = ''character'' \<and> eid = ''2'' then Some ''Morty''
      else None)"

definition no_notes :: "string \<Rightarrow> string \<Rightarrow> nat \<Rightarrow> string list" where
  "no_notes etype eid k = []"

definition facts_prompt :: "string \<Rightarrow> string list \<Rightarrow> string" where
  "facts_prompt facts notes = facts"

definition narrator :: "string \<Rightarrow> string option" where
  "narrator prompt = Some (prompt @ ''!'')"

definition narrator_down :: "string \<Rightarrow> string option" where
  "narrator_down prompt = None"

definition studio :: collaborators where
  "studio = \<lparr>getCanonical = catalogue, getRecent = no_notes, build_prompt = facts_prompt,
             complete_text = narrator, note_window = 5\<rparr>"

definition studio_down :: collaborators where
  "studio_down = \<lparr>getCanonical = catalogue, getRecent = no_notes,
                  build_prompt = facts_prompt, complete_text = narrator_down, note_window = 5\<rparr>"

definition example_scores :: evaluation where
  "example_scores = \<lparr>factual = 0.95, completeness = 0.87, creativity = 0.92, relevance = 0.89\<rparr>"

definition grader :: "string \<Rightarrow> string \<Rightarrow> error + evaluation" where
  "grader text context =
     (if text = ''Morty!'' then Inl UpstreamProviderError else Inr example_scores)"

definition rick_pending :: generation where
  "rick_pending = new_generation ''g1'' ''character'' ''1'' ''Rick!'' ''t0''"

definition morty_pending :: generation where
  "morty_pending = new_generation ''g2'' ''character'' ''2'' ''Morty!'' ''t1''"

definition rick_scored :: generation where
  "rick_scored = write_scores example_scores ''t9'' rick_pending"

text \<open>
  The state after \<open>generate("character", 1)\<close> on the empty core, the state after the
  worker has then scored it, and a state in which Morty's and then Rick's summaries have
  been requested and no job has been processed.
\<close>

definition rick_requested :: core_state where
  "rick_requested =
     \<lparr>store = [rick_pending], queue = [scoring_job_for rick_pending ''Rick''], worker_log = []\<rparr>"


definition both_requested :: core_state where
  "both_requested =
     \<lparr>store = [morty_pending, rick_pending],
      queue = [scoring_job_for morty_pending ''Morty'', scoring_job_for rick_pending ''Rick''],
      worker_log = []\<rparr>"





section \<open>Score display in the frontend\<close>

text \<open>
  The dashboard and the summary panels render every score field the same way
  (\<open>DashboardContent.tsx\<close>, \<open>EpisodeSummaryPanel\<close>):
  \<^verbatim>\<open>
  {summary.factual_score >= 0 ? (
    <p>{(summary.factual_score * 100).toFixed(0)}%</p>
  ) : (
    <p><span className="inline-block animate-pulse">Processing...</span></p>
  )}
  \<close>
  \<open>toFixed(0)\<close> rounds to the nearest integer, the larger one on a tie.
\<close>

datatype score_cell = Percentage int | Processing

definition score_cell :: "real \<Rightarrow> score_cell" where
  "score_cell score = (if score \<ge> 0 then Percentage (round (score * 100)) else Processing)"

section \<open>Properties of the evaluator\<close>

lemma penalise_linear: "penalise cs b = b - 0.1 * real (length cs)"
proof (induction cs arbitrary: b)
  case Nil
  show ?case by simp
next
  case (Cons c cs)
  have "penalise (c # cs) b = (b - 0.1) - 0.1 * real (length cs)"
    using Cons.IH [of "b - 0.1"] by simp
  also have "\<dots> = b - 0.1 * real (length (c # cs))"
    by (simp add: field_simps)
  finally show ?case .
qed

text \<open>
  Claim C8. For every text and factual context, the factual score is 1.0 minus 0.1 for
  each contradiction that \<open>check_contradictions\<close> reports between the text and the facts
  extracted from the context, floored at 0; it therefore always lies in [0,1].
\<close>

theorem factual_score_penalty_floor:
  "compute_factual_score extract_facts check_contradictions text context
     = max 0 (1 - 0.1 * real (length (check_contradictions text (extract_facts context))))
   \<and> 0 \<le> compute_factual_score extract_facts check_contradictions text context
   \<and> compute_factual_score extract_facts check_contradictions text context \<le> 1"
proof -
  define n where "n = length (check_contradictions text (extract_facts context))"
  have "compute_factual_score extract_facts check_contradictions text context
      = max 0 (penalise (check_contradictions text (extract_facts context)) 1)"
    by (simp add: compute_factual_score_def)
  also have "\<dots> = max 0 (1 - 0.1 * real n)"
    by (simp only: penalise_linear n_def)
  finally have score: "compute_factual_score extract_facts check_contradictions text context
      = max 0 (1 - 0.1 * real n)" .
  have "0 \<le> max 0 (1 - 0.1 * real n)" and "max 0 (1 - 0.1 * real n) \<le> 1"
    by simp_all
  with score show ?thesis
    by (simp only: n_def)
qed

subsection \<open>Creativity score\<close>

lemmas float_eval =
  float_def strip_def isspace_def split_sign_def lower_def floatnumber_def
  in_digitpart_def isdigit_def exponent_def digits_value_def digit_value_def scale_def

lemma float_words: "float ''great'' = None"
  by (simp add: float_eval)

lemma float_above_one: "float ''1.5'' = Some (Finite (3 / 2))"
  by (simp add: float_eval)

lemma float_in_range: "float ''0.85'' = Some (Finite (17 / 20))"
  by (simp add: float_eval)

lemma float_empty: "float [] = None"
  by (simp add: float_eval)

lemma strip_plain:
  "strip ''great'' = ''great''" "strip ''1.5'' = ''1.5''" "strip ''0.85'' = ''0.85''"
  by (simp_all add: strip_def isspace_def)

text \<open>
  Claim C7, as stated: an unparsable judge reply yields the neutral default 0.5 instead of
  a failure, and a parsable one is clamped to [0,1]. The function does neither: for the
  reply \<open>great\<close> it raises \<open>ValueError\<close>, and for the reply \<open>1.5\<close> it returns 1.5, which is
  not \<open>clamp01 1.5 = 1\<close>.
\<close>

theorem creativity_default_counterexample:
  "score_creativity_async (fixed_reply ''great'') ''Wubba lubba dub dub'' = Inl ValueError
   \<and> score_creativity_async (fixed_reply ''great'') ''Wubba lubba dub dub'' \<noteq> Inr (Finite 0.5)
   \<and> score_creativity_async (fixed_reply ''1.5'') ''Wubba lubba dub dub'' = Inr (Finite 1.5)
   \<and> score_creativity_async (fixed_reply ''1.5'') ''Wubba lubba dub dub''
        \<noteq> Inr (Finite (clamp01 1.5))"
  by (simp add: score_creativity_async_def fixed_reply_def strip_plain float_words
      float_above_one clamp01_def)

text \<open>
  Claim C7, amended. When the judge call returns a reply: if the reply, stripped of
  surrounding whitespace, is not a float literal (an empty reply, for one),
  \<open>score_creativity_async\<close> raises \<open>ValueError\<close> and produces no score; if it is a literal
  whose value lies in [0,1], that value is the score. A failing judge call propagates its
  error.
\<close>

theorem creativity_score_is_parsed_reply:
  "(llm_generate (creativity_prompt text) = Inr response \<and> float (strip response) = None
      \<longrightarrow> score_creativity_async llm_generate text = Inl ValueError)
   \<and> (llm_generate (creativity_prompt text) = Inr response \<and> strip response = []
      \<longrightarrow> score_creativity_async llm_generate text = Inl ValueError)
   \<and> (llm_generate (creativity_prompt text) = Inr response
        \<and> float (strip response) = Some (Finite x) \<and> 0 \<le> x \<and> x \<le> 1
      \<longrightarrow> score_creativity_async llm_generate text = Inr (Finite x) \<and> clamp01 x = x)
   \<and> (llm_generate (creativity_prompt text) = Inl e
      \<longrightarrow> score_creativity_async llm_generate text = Inl e)"
proof -
  have unparsable: "score_creativity_async llm_generate text = Inl ValueError"
    if "llm_generate (creativity_prompt text) = Inr response \<and> float (strip response) = None"
    using that by (simp add: score_creativity_async_def)
  have empty: "score_creativity_async llm_generate text = Inl ValueError"
    if "llm_generate (creativity_prompt text) = Inr response \<and> strip response = []"
    using that by (simp add: score_creativity_async_def float_empty)
  have in_range: "score_creativity_async llm_generate text = Inr (Finite x) \<and> clamp01 x = x"
    if "llm_generate (creativity_prompt text) = Inr response
        \<and> float (strip response) = Some (Finite x) \<and> 0 \<le> x \<and> x \<le> 1"
    using that by (simp add: score_creativity_async_def clamp01_def)
  have propagated: "score_creativity_async llm_generate text = Inl e"
    if "llm_generate (creativity_prompt text) = Inl e"
    using that by (simp add: score_creativity_async_def)
  show ?thesis
    using unparsable empty in_range propagated by blast
qed

theorem creativity_score_is_parsed_reply_witness:
  "fixed_reply ''0.85'' (creativity_prompt ''Wubba lubba dub dub'') = Inr ''0.85''
   \<and> float (strip ''0.85'') = Some (Finite (17 / 20))
   \<and> (0 :: real) \<le> 17 / 20 \<and> (17 / 20 :: real) \<le> 1
   \<and> score_creativity_async (fixed_reply ''0.85'') ''Wubba lubba dub dub''
        = Inr (Finite (17 / 20))
   \<and> clamp01 (17 / 20) = 17 / 20
   \<and> fixed_reply ''great'' (creativity_prompt ''Wubba lubba dub dub'') = Inr ''great''
   \<and> float (strip ''great'') = None
   \<and> score_creativity_async (fixed_reply ''great'') ''Wubba lubba dub dub'' = Inl ValueError
   \<and> judge_down (creativity_prompt ''Wubba lubba dub dub'') = Inl UpstreamProviderError
   \<and> score_creativity_async judge_down ''Wubba lubba dub dub'' = Inl UpstreamProviderError"
proof -
  have r1: "fixed_reply ''0.85'' (creativity_prompt ''Wubba lubba dub dub'') = Inr ''0.85''"
    and r2: "fixed_reply ''great'' (creativity_prompt ''Wubba lubba dub dub'') = Inr ''great''"
    and r3: "judge_down (creativity_prompt ''Wubba lubba dub dub'') = Inl UpstreamProviderError"
    by (simp_all add: fixed_reply_def judge_down_def)
  have p1: "float (strip ''0.85'') = Some (Finite (17 / 20))"
    and p2: "float (strip ''great'') = None"
    by (simp_all add: strip_plain float_in_range float_words)
  show ?thesis
    using r1 r2 r3 p1 p2
      creativity_score_is_parsed_reply
        [where llm_generate = "fixed_reply ''0.85''" and response = "''0.85''"
           and x = "17 / 20"]
      creativity_score_is_parsed_reply
        [where llm_generate = "fixed_reply ''great''" and response = "''great''"]
      creativity_score_is_parsed_reply
        [where llm_generate = judge_down and e = UpstreamProviderError]
    by simp
qed

section \<open>Properties of the semantic search\<close>

subsection \<open>The scoring loop\<close>

lemma score_entries_shape:
  assumes "score_entries jl cs en es qe query entries acc = Inr scored"
  shows "length scored = length acc + length entries
    \<and> map (\<lambda>r. (res_entity_type r, res_entity_id r)) scored
        = map (\<lambda>r. (res_entity_type r, res_entity_id r)) acc
          @ map (\<lambda>e. (entry_entity_type e, entry_entity_id e)) entries"
  using assms
proof (induction entries arbitrary: acc)
  case Nil
  then show ?case by simp
next
  case (Cons entry rest)
  from Cons.prems obtain sim where
    "score_entries jl cs en es qe query rest
       (acc @ [\<lparr>res_entity_type = entry_entity_type entry,
                res_entity_id = entry_entity_id entry,
                name = en (text_blob entry),
                snippet = es (text_blob entry) query,
                similarity = sim\<rparr>]) = Inr scored"
    by (auto split: sum.splits)
  from Cons.IH [OF this] show ?case by simp
qed

subsection \<open>Sorting and slicing\<close>

lemma sort_reverse_desc: "sorted_wrt (\<lambda>a b. key b \<le> key a) (sort_reverse key xs)"
proof -
  have "sorted (map (\<lambda>x. - key x) (sort_key (\<lambda>x. - key x) xs))"
    by (rule sorted_sort_key)
  then show ?thesis
    by (simp add: sort_reverse_def sorted_map)
qed

lemma sort_reverse_stable:
  "filter (\<lambda>x. key x = k) (sort_reverse key xs) = filter (\<lambda>x. key x = k) xs"
proof -
  have "filter (\<lambda>x. - key x = - k) (sort_key (\<lambda>x. - key x) xs)
      = filter (\<lambda>x. - key x = - k) xs"
    by (rule sort_key_stable)
  then show ?thesis
    by (simp add: sort_reverse_def)
qed

lemma length_sort_reverse: "length (sort_reverse key xs) = length xs"
  by (simp add: sort_reverse_def)

lemma slice_to_is_take: "\<exists>n. slice_to xs stop = take n xs"
  by (auto simp add: slice_to_def)

lemma length_slice_to:
  "length (slice_to xs stop)
     = (if 0 \<le> stop then min (nat stop) (length xs) else nat (int (length xs) + stop))"
  by (auto simp add: slice_to_def)

lemma filter_take_prefix: "\<exists>m. filter P (take n xs) = take m (filter P xs)"
proof -
  have "filter P xs = filter P (take n xs) @ filter P (drop n xs)"
    by (metis append_take_drop_id filter_append)
  then have "take (length (filter P (take n xs))) (filter P xs) = filter P (take n xs)"
    by simp
  then show ?thesis by metis
qed

subsection \<open>The sample index\<close>

lemma cosine_unit_same: "cosine_similarity [1, 0] [1, 0] = Inr 1"
  by (simp add: cosine_similarity_def vnorm_def dot_def divide_checked_def)

lemma cosine_unit_orthogonal: "cosine_similarity [1, 0] [0, 1] = Inr 0"
  by (simp add: cosine_similarity_def vnorm_def dot_def divide_checked_def)

lemma sample_scores:
  "score_entries json_loads_table cosine_similarity first_line leading_snippet [1, 0] ''rick''
     [episode_entry, location_entry, character_entry] []
   = Inr [episode_hit, location_hit, character_hit]"
  by (simp add: json_loads_table_def cosine_unit_same cosine_unit_orthogonal
      first_line_def leading_snippet_def episode_entry_def location_entry_def
      character_entry_def episode_hit_def location_hit_def character_hit_def)

lemma sample_sorted:
  "sort_reverse similarity [episode_hit, location_hit, character_hit]
   = [location_hit, character_hit, episode_hit]"
  by (simp add: sort_reverse_def episode_hit_def location_hit_def character_hit_def)

lemma sample_search:
  "semantic_search unit_embedding json_loads_table cosine_similarity first_line
     leading_snippet [episode_entry, location_entry, character_entry] ''rick'' limit
   = Inr (slice_to [location_hit, character_hit, episode_hit] limit)"
  unfolding semantic_search_def unit_embedding_def
  by (simp only: sample_scores sample_sorted sum.case)

lemma location_after_character:
  "\<not> (''location'', ''1'') \<le> (''character'', ''1'')"
  by (simp add: less_eq_prod_def)

text \<open>
  Claim C1, as stated: at most \<open>limit\<close> results for every limit, and entries of equal
  similarity ordered ascending by (entity_type, entity_id). On an index that returns
  episode 1, location 1, character 1 in this order, where location 1 and character 1 have
  the same embedding, the search with limit 10 returns location 1 before character 1, and
  the search with limit -1 returns two results.
\<close>

theorem semantic_search_tie_break_counterexample:
  "semantic_search unit_embedding json_loads_table cosine_similarity first_line
     leading_snippet [episode_entry, location_entry, character_entry] ''rick'' 10
     = Inr [location_hit, character_hit, episode_hit]
   \<and> similarity location_hit = similarity character_hit
   \<and> \<not> ties_by_entity_key [location_hit, character_hit, episode_hit]
   \<and> semantic_search unit_embedding json_loads_table cosine_similarity first_line
       leading_snippet [episode_entry, location_entry, character_entry] ''rick'' (- 1)
     = Inr [location_hit, character_hit]
   \<and> \<not> int (length [location_hit, character_hit]) \<le> - 1"
  by (simp add: sample_search slice_to_def ties_by_entity_key_def location_hit_def
      character_hit_def episode_hit_def location_after_character)

text \<open>
  Claim C1, amended. Whenever \<open>semantic_search\<close> returns for a limit \<open>\<ge> 0\<close>, it returns
  \<open>min limit n\<close> results, hence at most \<open>limit\<close>, where \<open>n\<close> is the number of index
  entries; for every limit the results are sorted by non-increasing similarity; and
  entries of equal similarity keep the order in which the index returned them (for each
  similarity value, the results having it are a prefix of the scored entries having it,
  in index order).
\<close>

theorem semantic_search_ranked_stable:
  assumes "semantic_search get_embedding json_loads cosine extract_name extract_snippet
             all_entries query limit = Inr rs"
  shows "\<exists>query_embedding scored.
           get_embedding query = Inr query_embedding
         \<and> score_entries json_loads cosine extract_name extract_snippet
               query_embedding query all_entries [] = Inr scored
         \<and> map (\<lambda>r. (res_entity_type r, res_entity_id r)) scored
             = map (\<lambda>e. (entry_entity_type e, entry_entity_id e)) all_entries
         \<and> (0 \<le> limit \<longrightarrow>
               length rs = min (nat limit) (length all_entries) \<and> int (length rs) \<le> limit)
         \<and> by_similarity_desc rs
         \<and> (\<forall>k. \<exists>m. filter (\<lambda>r. similarity r = k) rs
                       = take m (filter (\<lambda>r. similarity r = k) scored))"
proof -
  from assms obtain qe scored where
    qe: "get_embedding query = Inr qe"
    and sc: "score_entries json_loads cosine extract_name extract_snippet
               qe query all_entries [] = Inr scored"
    and rs: "rs = slice_to (sort_reverse similarity scored) limit"
    by (auto simp add: semantic_search_def split: sum.splits)
  from score_entries_shape [OF sc]
  have len: "length scored = length all_entries"
    and keys: "map (\<lambda>r. (res_entity_type r, res_entity_id r)) scored
             = map (\<lambda>e. (entry_entity_type e, entry_entity_id e)) all_entries"
    by simp_all
  have n: "length rs = (if 0 \<le> limit then min (nat limit) (length all_entries)
                        else nat (int (length all_entries) + limit))"
    by (simp only: rs length_slice_to length_sort_reverse len)
  have atmost: "0 \<le> limit \<longrightarrow>
      length rs = min (nat limit) (length all_entries) \<and> int (length rs) \<le> limit"
    using n by auto
  obtain c where c: "rs = take c (sort_reverse similarity scored)"
    using slice_to_is_take [of "sort_reverse similarity scored" limit] rs by auto
  have desc: "by_similarity_desc rs"
    unfolding by_similarity_desc_def c
    by (rule sorted_wrt_take) (rule sort_reverse_desc)
  have stable: "\<exists>m. filter (\<lambda>r. similarity r = k) rs
                   = take m (filter (\<lambda>r. similarity r = k) scored)" for k
    using filter_take_prefix [of "\<lambda>r. similarity r = k" c "sort_reverse similarity scored"]
    by (simp add: c sort_reverse_stable)
  show ?thesis
    using qe sc keys atmost desc stable by blast
qed

theorem semantic_search_ranked_stable_witness:
  "semantic_search unit_embedding json_loads_table cosine_similarity first_line
     leading_snippet [episode_entry, location_entry, character_entry] ''rick'' 2
     = Inr [location_hit, character_hit]
   \<and> length [location_hit, character_hit] = min (nat 2) (length [episode_entry, location_entry, character_entry])
   \<and> by_similarity_desc [location_hit, character_hit]"
proof -
  have run: "semantic_search unit_embedding json_loads_table cosine_similarity first_line
     leading_snippet [episode_entry, location_entry, character_entry] ''rick'' 2
     = Inr [location_hit, character_hit]"
    by (simp add: sample_search slice_to_def)
  from semantic_search_ranked_stable [OF run] run show ?thesis
    by auto
qed

subsection \<open>Cosine similarity\<close>

lemma dot_Nil: "dot [] ys = 0" "dot xs [] = 0"
  by (simp_all add: dot_def)

lemma dot_Cons: "dot (x # xs) (y # ys) = x * y + dot xs ys"
  by (simp add: dot_def)

lemma dot_self_nonneg: "0 \<le> dot xs xs"
  by (induction xs) (simp_all add: dot_Nil dot_Cons)

lemma vnorm_nonneg: "0 \<le> vnorm xs"
  by (simp add: vnorm_def dot_self_nonneg)

lemma vnorm_all_zero: "vnorm (replicate n 0) = 0"
  by (induction n) (simp_all add: vnorm_def dot_Nil dot_Cons)

lemma two_prod_le_sum:
  fixes t p q :: real
  assumes "t\<^sup>2 \<le> p * q" "0 \<le> p" "0 \<le> q"
  shows "2 * t \<le> p + q"
proof -
  have "(p + q)\<^sup>2 - 4 * (p * q) = (p - q)\<^sup>2"
    by (simp add: power2_eq_square algebra_simps)
  then have "4 * (p * q) \<le> (p + q)\<^sup>2"
    by (metis diff_ge_0_iff_ge zero_le_power2)
  moreover have "(2 * t)\<^sup>2 = 4 * t\<^sup>2"
    by (simp add: power2_eq_square)
  ultimately have "(2 * t)\<^sup>2 \<le> (p + q)\<^sup>2"
    using assms(1) by linarith
  then show ?thesis
    using assms(2,3) by (auto intro: power2_le_imp_le)
qed

text \<open>The Cauchy-Schwarz inequality for lists, by induction on both vectors.\<close>

lemma dot_square_le:
  assumes "length xs = length ys"
  shows "(dot xs ys)\<^sup>2 \<le> dot xs xs * dot ys ys"
  using assms
proof (induction xs ys rule: list_induct2)
  case Nil
  show ?case by (simp add: dot_Nil)
next
  case (Cons x xs y ys)
  define a where "a = dot xs ys"
  define A where "A = dot xs xs"
  define B where "B = dot ys ys"
  have A0: "0 \<le> A" and B0: "0 \<le> B"
    by (simp_all add: A_def B_def dot_self_nonneg)
  have IH: "a\<^sup>2 \<le> A * B"
    using Cons.IH by (simp add: a_def A_def B_def)
  have "(x * y * a)\<^sup>2 = (x\<^sup>2 * y\<^sup>2) * a\<^sup>2"
    by (simp add: power2_eq_square algebra_simps)
  also have "\<dots> \<le> (x\<^sup>2 * y\<^sup>2) * (A * B)"
    using IH by (rule mult_left_mono) simp
  also have "\<dots> = (x\<^sup>2 * B) * (y\<^sup>2 * A)"
    by (simp add: algebra_simps)
  finally have "2 * (x * y * a) \<le> x\<^sup>2 * B + y\<^sup>2 * A"
    using A0 B0 by (auto intro: two_prod_le_sum)
  moreover have "(x * y + a)\<^sup>2 = x\<^sup>2 * y\<^sup>2 + 2 * (x * y * a) + a\<^sup>2"
    by (simp add: power2_eq_square algebra_simps)
  moreover have "(x * x + A) * (y * y + B) = x\<^sup>2 * y\<^sup>2 + (x\<^sup>2 * B + y\<^sup>2 * A) + A * B"
    by (simp add: power2_eq_square algebra_simps)
  ultimately have "(x * y + a)\<^sup>2 \<le> (x * x + A) * (y * y + B)"
    using IH by linarith
  then show ?case
    by (simp add: a_def A_def B_def dot_Cons)
qed

lemma abs_dot_le_norms:
  assumes "length xs = length ys"
  shows "\<bar>dot xs ys\<bar> \<le> vnorm xs * vnorm ys"
proof -
  have "sqrt ((dot xs ys)\<^sup>2) \<le> sqrt (dot xs xs * dot ys ys)"
    using dot_square_le [OF assms] by (rule real_sqrt_le_mono)
  then show ?thesis
    by (simp add: vnorm_def real_sqrt_mult)
qed

lemma cosine_quotient_bounded:
  assumes len: "length query = length entry"
    and nz: "vnorm query \<noteq> 0" "vnorm entry \<noteq> 0"
  shows "- 1 \<le> dot query entry / (vnorm query * vnorm entry)
       \<and> dot query entry / (vnorm query * vnorm entry) \<le> 1"
proof -
  have pos: "0 < vnorm query * vnorm entry"
    using nz vnorm_nonneg [of query] vnorm_nonneg [of entry] by (simp add: less_le)
  have "\<bar>dot query entry / (vnorm query * vnorm entry)\<bar>
      = \<bar>dot query entry\<bar> / (vnorm query * vnorm entry)"
    using pos by (simp only: abs_divide abs_of_pos)
  also have "\<dots> \<le> 1"
    using abs_dot_le_norms [OF len] pos by (simp add: divide_le_eq)
  finally show ?thesis
    unfolding abs_le_iff by linarith
qed

text \<open>
  Claim C9. For every query embedding and every index entry of the same dimension the
  cosine similarity is a value in [-1, 1]; it is 0 whenever either vector has zero norm,
  in particular for an all-zero embedding; and the computation never divides by zero.
  (Vectors of different dimensions are refused with \<open>IndexDimensionMismatchError\<close>.)
\<close>

theorem cosine_similarity_in_range:
  "(length query = length entry \<longrightarrow>
      (\<exists>s. cosine_similarity query entry = Inr s \<and> - 1 \<le> s \<and> s \<le> 1))
   \<and> (length query = length entry \<and> (vnorm query = 0 \<or> vnorm entry = 0) \<longrightarrow>
        cosine_similarity query entry = Inr 0)
   \<and> cosine_similarity query (replicate (length query) 0) = Inr 0
   \<and> (length query \<noteq> length entry \<longrightarrow>
        cosine_similarity query entry = Inl IndexDimensionMismatchError)
   \<and> cosine_similarity query entry \<noteq> Inl ZeroDivisionError"
proof -
  have bounded: "\<exists>s. cosine_similarity query entry = Inr s \<and> - 1 \<le> s \<and> s \<le> 1"
    if len: "length query = length entry"
  proof (cases "vnorm query = 0 \<or> vnorm entry = 0")
    case True
    then show ?thesis using len by (simp add: cosine_similarity_def)
  next
    case False
    then have nz: "vnorm query \<noteq> 0" "vnorm entry \<noteq> 0" by simp_all
    from cosine_quotient_bounded [OF len nz] nz len show ?thesis
      by (simp add: cosine_similarity_def divide_checked_def)
  qed
  have zero: "cosine_similarity query entry = Inr 0"
    if "length query = length entry \<and> (vnorm query = 0 \<or> vnorm entry = 0)"
    using that by (auto simp add: cosine_similarity_def)
  have allzero: "cosine_similarity query (replicate (length query) 0) = Inr 0"
    by (simp add: cosine_similarity_def vnorm_all_zero)
  have mismatch: "cosine_similarity query entry = Inl IndexDimensionMismatchError"
    if "length query \<noteq> length entry"
    using that by (simp add: cosine_similarity_def)
  have nodiv: "cosine_similarity query entry \<noteq> Inl ZeroDivisionError"
    by (auto simp add: cosine_similarity_def divide_checked_def)
  show ?thesis
    using bounded zero allzero mismatch nodiv by blast
qed

theorem cosine_similarity_in_range_witness:
  "length [3, 4 :: real] = length [0, 0 :: real]
   \<and> vnorm [0, 0] = 0
   \<and> cosine_similarity [3, 4] [0, 0] = Inr 0
   \<and> length [1, 0 :: real] \<noteq> length [1 :: real]
   \<and> cosine_similarity [1, 0] [1] = Inl IndexDimensionMismatchError"
proof -
  have z: "vnorm [0, 0] = 0"
    by (simp add: vnorm_def dot_def)
  show ?thesis
    using z cosine_similarity_in_range [of "[3, 4]" "[0, 0]"]
      cosine_similarity_in_range [of "[1, 0]" "[1]"]
    by simp
qed

section \<open>Properties of the generations table\<close>

lemma collides_iff:
  "list_ex (collides g) rows \<longleftrightarrow>
     generation_id g \<in> set (map generation_id rows)
     \<or> (entity_type g, entity_id g) \<in> set (map (\<lambda>r. (entity_type r, entity_id r)) rows)"
proof -
  have "(\<exists>r\<in>set rows. generation_id r = generation_id g)
      \<longleftrightarrow> generation_id g \<in> set (map generation_id rows)"
    by (auto simp add: image_iff) metis
  moreover have "(\<exists>r\<in>set rows. same_entity r g)
      \<longleftrightarrow> (entity_type g, entity_id g)
            \<in> set (map (\<lambda>r. (entity_type r, entity_id r)) rows)"
    by (auto simp add: image_iff same_entity_def) metis
  ultimately show ?thesis
    unfolding list_ex_iff collides_def by blast
qed

lemma keys_after_insert:
  assumes "unique_id rows" "unique_entity rows" "\<not> list_ex (collides g) rows"
  shows "unique_id (rows @ [g]) \<and> unique_entity (rows @ [g])"
  using assms unfolding collides_iff unique_id_def unique_entity_def by simp

lemma keys_after_filter:
  assumes "unique_id rows" "unique_entity rows"
  shows "unique_id (filter P rows) \<and> unique_entity (filter P rows)"
  using assms unfolding unique_id_def unique_entity_def
  by (simp add: distinct_map_filter)

lemma no_collision_after_replace:
  "\<not> list_ex (collides g) (filter (\<lambda>r. \<not> collides g r) rows)"
  by (simp add: list_ex_iff)

lemma execute_keeps_keys:
  assumes "unique_id rows" "unique_entity rows" "execute s rows = Inr rows'"
  shows "unique_id rows' \<and> unique_entity rows'"
proof (cases s)
  case (Insert g)
  with assms show ?thesis
    by (auto simp add: keys_after_insert split: if_splits)
next
  case (InsertOrReplace g)
  have "unique_id (filter (\<lambda>r. \<not> collides g r) rows)
      \<and> unique_entity (filter (\<lambda>r. \<not> collides g r) rows)"
    using assms(1,2) by (rule keys_after_filter)
  then have "unique_id (filter (\<lambda>r. \<not> collides g r) rows @ [g])
      \<and> unique_entity (filter (\<lambda>r. \<not> collides g r) rows @ [g])"
    using no_collision_after_replace [of g rows] by (simp add: keys_after_insert)
  with assms(3) InsertOrReplace show ?thesis by auto
next
  case (Update gid f)
  with assms(3) show ?thesis
    by (auto simp add: Let_def split: if_splits)
next
  case (Delete gid)
  with assms show ?thesis
    by (auto simp add: keys_after_filter)
qed

lemma execute_all_keeps_keys:
  assumes "unique_id rows" "unique_entity rows"
  shows "unique_id (execute_all ss rows) \<and> unique_entity (execute_all ss rows)"
  using assms
proof (induction ss arbitrary: rows)
  case Nil
  then show ?case by simp
next
  case (Cons s ss)
  show ?case
  proof (cases "execute s rows")
    case (Inl e)
    with Cons show ?thesis by simp
  next
    case (Inr rows')
    with Cons.prems have "unique_id rows' \<and> unique_entity rows'"
      by (auto dest: execute_keeps_keys)
    with Cons.IH [of rows'] Inr show ?thesis by simp
  qed
qed

lemma replace_leaves_one:
  "filter (\<lambda>r. same_entity r g) (filter (\<lambda>r. \<not> collides g r) rows @ [g]) = [g]"
proof -
  have "filter (\<lambda>r. same_entity r g) (filter (\<lambda>r. \<not> collides g r) rows) = []"
    by (auto simp add: filter_empty_conv collides_def)
  then show ?thesis
    by (simp add: same_entity_def)
qed

lemma insert_refused:
  assumes "first \<in> set rows" "same_entity first second"
  shows "execute (Insert second) rows = Inl IntegrityError"
proof -
  have "list_ex (collides second) rows"
    unfolding list_ex_iff collides_def using assms by blast
  then show ?thesis by simp
qed

text \<open>
  Claim C2. The generations table holds at most one record per (entity_type, entity_id)
  at any time: whatever statements are run on the empty table, the entity key (and the
  primary key) stays unique. A second write for an entity that already has a record
  either errors (\<open>INSERT\<close>: \<open>IntegrityError\<close>, table unchanged) or supersedes the first
  record (\<open>INSERT OR REPLACE\<close>: the new record is then the only one for the entity). Two
  records for one entity never coexist, whichever of the two \<open>generate\<close> uses to persist.
\<close>

theorem generations_one_record_per_entity:
  "unique_entity (execute_all stmts []) \<and> unique_id (execute_all stmts [])
   \<and> (unique_id before \<and> unique_entity before \<and> execute s before = Inr after
        \<longrightarrow> unique_id after \<and> unique_entity after)
   \<and> (first \<in> set rows \<and> same_entity first second \<longrightarrow>
        execute (Insert second) rows = Inl IntegrityError
      \<and> execute_all [Insert second] rows = rows
      \<and> filter (\<lambda>r. same_entity r second) (execute_all [InsertOrReplace second] rows)
          = [second])"
proof -
  have keys: "unique_id (execute_all stmts []) \<and> unique_entity (execute_all stmts [])"
    by (rule execute_all_keeps_keys) (simp_all add: unique_id_def unique_entity_def)
  have kept: "unique_id after \<and> unique_entity after"
    if "unique_id before \<and> unique_entity before \<and> execute s before = Inr after"
    using that execute_keeps_keys [of before s after] by blast
  have second_write:
    "execute (Insert second) rows = Inl IntegrityError
      \<and> execute_all [Insert second] rows = rows
      \<and> filter (\<lambda>r. same_entity r second) (execute_all [InsertOrReplace second] rows)
          = [second]"
    if "first \<in> set rows \<and> same_entity first second"
  proof -
    from that have "first \<in> set rows" and "same_entity first second"
      by simp_all
    then have refused: "execute (Insert second) rows = Inl IntegrityError"
      by (rule insert_refused)
    have replaced:
      "filter (\<lambda>r. same_entity r second) (execute_all [InsertOrReplace second] rows)
         = [second]"
      by (simp only: execute_all.simps execute.simps sum.case replace_leaves_one)
    from refused replaced show ?thesis
      by (simp del: execute.simps)
  qed
  show ?thesis using keys kept second_write by blast
qed

theorem generations_one_record_per_entity_witness:
  "execute (Insert rick_pending) [] = Inr [rick_pending]
   \<and> unique_entity [rick_pending]
   \<and> rick_pending \<in> set [rick_pending]
   \<and> same_entity rick_pending (new_generation ''g3'' ''character'' ''1'' ''Rick?'' ''t2'')
   \<and> execute (Insert (new_generation ''g3'' ''character'' ''1'' ''Rick?'' ''t2''))
        [rick_pending] = Inl IntegrityError
   \<and> execute_all [InsertOrReplace (new_generation ''g3'' ''character'' ''1'' ''Rick?'' ''t2'')]
        [rick_pending] = [new_generation ''g3'' ''character'' ''1'' ''Rick?'' ''t2'']
   \<and> unique_entity (execute_all
        [Insert rick_pending, Insert (new_generation ''g3'' ''character'' ''1'' ''Rick?'' ''t2'')]
        [])"
proof -
  have inserted: "execute (Insert rick_pending) [] = Inr [rick_pending]"
    by simp
  have empty: "unique_id [] \<and> unique_entity []"
    by (simp add: unique_id_def unique_entity_def)
  have same: "same_entity rick_pending (new_generation ''g3'' ''character'' ''1'' ''Rick?'' ''t2'')"
    by (simp add: same_entity_def rick_pending_def new_generation_def)
  have replaced:
    "execute_all [InsertOrReplace (new_generation ''g3'' ''character'' ''1'' ''Rick?'' ''t2'')]
        [rick_pending] = [new_generation ''g3'' ''character'' ''1'' ''Rick?'' ''t2'']"
    by (simp add: collides_def same_entity_def rick_pending_def new_generation_def)
  show ?thesis
    using inserted empty same replaced
      generations_one_record_per_entity
        [where stmts = "[Insert rick_pending,
                         Insert (new_generation ''g3'' ''character'' ''1'' ''Rick?'' ''t2'')]"
           and before = "[]" and s = "Insert rick_pending" and after = "[rick_pending]"
           and first = rick_pending and rows = "[rick_pending]"
           and second = "new_generation ''g3'' ''character'' ''1'' ''Rick?'' ''t2''"]
    by simp
qed

section \<open>Properties of the generation pipeline\<close>

subsection \<open>What a call of generate can do\<close>

lemma new_generation_pending: "is_pending (new_generation new_id etype eid text now)"
  by (simp add: is_pending_def new_generation_def)

lemma new_generation_fields:
  "generation_id (new_generation new_id etype eid text now) = new_id"
  "entity_type (new_generation new_id etype eid text now) = etype"
  "entity_id (new_generation new_id etype eid text now) = eid"
  "summary_text (new_generation new_id etype eid text now) = text"
  by (simp_all add: new_generation_def)

lemma generate_cases:
  assumes "generate c policy etype eid new_id now st = (res, st')"
  shows "(\<exists>e. res = Inl e \<and> st' = st)
       \<or> (\<exists>facts text rows.
             getCanonical c etype eid = Some facts
           \<and> complete_text c (build_prompt c facts (getRecent c etype eid (note_window c)))
               = Some text
           \<and> create policy (new_generation new_id etype eid text now) (store st) = Inr rows
           \<and> res = Inr (new_generation new_id etype eid text now)
           \<and> st' = st\<lparr>store := rows,
                       queue := queue st
                         @ [scoring_job_for (new_generation new_id etype eid text now) facts]\<rparr>)"
  using assms
  by (auto simp add: generate_def Let_def split: option.splits sum.splits)

lemma generate_outcome:
  assumes "generate c policy etype eid new_id now st = (res, st')"
  obtains (failed) e where "res = Inl e" "st' = st"
  | (persisted) facts summary rows where
      "getCanonical c etype eid = Some facts"
      "complete_text c (build_prompt c facts (getRecent c etype eid (note_window c)))
         = Some summary"
      "create policy (new_generation new_id etype eid summary now) (store st) = Inr rows"
      "res = Inr (new_generation new_id etype eid summary now)"
      "st' = st\<lparr>store := rows,
                  queue := queue st
                    @ [scoring_job_for (new_generation new_id etype eid summary now) facts]\<rparr>"
  using generate_cases [OF assms] by blast

lemma create_rows:
  assumes "create policy g rows = Inr rows'"
  shows "rows' = rows @ [g] \<or> rows' = filter (\<lambda>r. \<not> collides g r) rows @ [g]"
  using assms
  by (cases policy) (auto simp add: create_def split: if_splits)


lemma create_without_collision:
  assumes "\<not> list_ex (collides g) rows"
  shows "\<exists>rows'. create policy g rows = Inr rows'"
  using assms by (cases policy) (simp_all add: create_def)

subsection \<open>What a turn of the worker can do\<close>





lemma write_scores_scored:
  assumes "valid_evaluation ev"
  shows "is_scored (write_scores ev now g)"
  using assms by (simp add: is_scored_def valid_evaluation_def write_scores_def)

subsection \<open>Invariants of the reachable states\<close>










subsection \<open>The worker loop\<close>

lemma worker_step_queue:
  assumes "queue st = job # rest"
  shows "queue (worker_step evaluate now st) = rest"
  using assms by (simp add: worker_step_def split: sum.splits)

lemma run_worker_unfold:
  assumes "queue st = job # rest"
  shows "run_worker evaluate now st = run_worker evaluate now (worker_step evaluate now st)"
proof -
  have "run_worker evaluate now st
      = ((worker_step evaluate now) ^^ length rest) (worker_step evaluate now st)"
    using assms by (simp add: run_worker_def funpow_swap1)
  then show ?thesis
    using worker_step_queue [OF assms, of evaluate now] by (simp add: run_worker_def)
qed

lemma run_worker_empty:
  assumes "queue st = []"
  shows "run_worker evaluate now st = st"
  using assms by (simp add: run_worker_def)

lemma run_worker_drains: "queue (run_worker evaluate now st) = []"
proof (induction "length (queue st)" arbitrary: st)
  case 0
  then show ?case by (simp add: run_worker_def)
next
  case (Suc n)
  from Suc.hyps(2) obtain job rest where q: "queue st = job # rest"
    by (cases "queue st") simp_all
  with Suc.hyps(2) have "n = length (queue (worker_step evaluate now st))"
    by (simp add: worker_step_queue)
  from Suc.hyps(1) [OF this] show ?case
    by (simp add: run_worker_unfold [OF q])
qed

lemma worker_step_ignores_log:
  assumes "store a = store b" "queue a = queue b"
  shows "store (worker_step evaluate now a) = store (worker_step evaluate now b)
       \<and> queue (worker_step evaluate now a) = queue (worker_step evaluate now b)"
  using assms by (simp add: worker_step_def split: list.splits sum.splits)

lemma run_worker_ignores_log:
  assumes "store a = store b" "queue a = queue b"
  shows "store (run_worker evaluate now a) = store (run_worker evaluate now b)"
  using assms
proof (induction "length (queue a)" arbitrary: a b)
  case 0
  then show ?case by (simp add: run_worker_def)
next
  case (Suc n)
  from Suc.hyps(2) obtain job rest where qa: "queue a = job # rest"
    by (cases "queue a") simp_all
  with Suc.prems have qb: "queue b = job # rest" by simp
  have len: "n = length (queue (worker_step evaluate now a))"
    using Suc.hyps(2) qa by (simp add: worker_step_queue)
  from worker_step_ignores_log [OF Suc.prems, of evaluate now]
  have "store (run_worker evaluate now (worker_step evaluate now a))
      = store (run_worker evaluate now (worker_step evaluate now b))"
    by (intro Suc.hyps(1) [OF len]) simp_all
  then show ?case
    by (simp add: run_worker_unfold [OF qa] run_worker_unfold [OF qb])
qed

subsection \<open>Sample runs\<close>

lemmas sample_defs =
  studio_def studio_down_def catalogue_def no_notes_def facts_prompt_def narrator_def
  narrator_down_def rick_pending_def morty_pending_def rick_requested_def
  both_requested_def initial_state_def

lemma generate_rick:
  "generate studio Reject ''character'' ''1'' ''g1'' ''t0'' initial_state
     = (Inr rick_pending, rick_requested)"
  by (simp add: generate_def create_def Let_def sample_defs)

lemma generate_rick_down:
  "generate studio_down Reject ''character'' ''1'' ''g1'' ''t0'' initial_state
     = (Inl UpstreamProviderError, initial_state)"
  by (simp add: generate_def Let_def sample_defs)


lemma morty_job_fails:
  "process_job grader ''t9'' (scoring_job_for morty_pending ''Morty'') rows
     = Inl UpstreamProviderError"
  by (simp add: process_job_def scoring_job_for_def grader_def morty_pending_def
      new_generation_def)

lemma rick_job_succeeds:
  "process_job grader ''t9'' (scoring_job_for rick_pending ''Rick'') [morty_pending, rick_pending]
     = Inr [morty_pending, rick_scored]"
  "process_job grader ''t9'' (scoring_job_for rick_pending ''Rick'') [rick_pending]
     = Inr [rick_scored]"
  by (simp_all add: process_job_def scoring_job_for_def grader_def update_scores_def
      rick_scored_def rick_pending_def morty_pending_def new_generation_def)





subsection \<open>Claims about generate\<close>

text \<open>
  Claim C4. Whenever \<open>generate(entity_type, entity_id)\<close> returns a generation, that
  generation has status INITIATED and its four scores equal the pending sentinel; it is in
  the store, its scoring job is the last element of the queue (enqueued, not processed),
  and nothing was logged: the call returns before the worker has run. For every known
  entity for which the text generation answers and the store accepts the record, the call
  does return such a generation.
\<close>

theorem generate_returns_pending_generation:
  "(generate c policy etype eid new_id now st = (Inr g, st') \<longrightarrow>
       scores_status g = INITIATED
     \<and> factual_score g = pending_sentinel \<and> completeness_score g = pending_sentinel
     \<and> creativity_score g = pending_sentinel \<and> relevance_score g = pending_sentinel
     \<and> entity_type g = etype \<and> entity_id g = eid \<and> generation_id g = new_id
     \<and> g \<in> set (store st')
     \<and> (\<exists>facts. queue st' = queue st @ [scoring_job_for g facts])
     \<and> worker_log st' = worker_log st)
   \<and> (getCanonical c etype eid = Some facts
      \<and> complete_text c (build_prompt c facts (getRecent c etype eid (note_window c)))
          = Some summary
      \<and> \<not> list_ex (collides (new_generation new_id etype eid summary now)) (store st)
      \<longrightarrow> (\<exists>st'. generate c policy etype eid new_id now st
                    = (Inr (new_generation new_id etype eid summary now), st')))"
proof -
  have returned:
    "scores_status g = INITIATED
     \<and> factual_score g = pending_sentinel \<and> completeness_score g = pending_sentinel
     \<and> creativity_score g = pending_sentinel \<and> relevance_score g = pending_sentinel
     \<and> entity_type g = etype \<and> entity_id g = eid \<and> generation_id g = new_id
     \<and> g \<in> set (store st')
     \<and> (\<exists>facts. queue st' = queue st @ [scoring_job_for g facts])
     \<and> worker_log st' = worker_log st"
    if "generate c policy etype eid new_id now st = (Inr g, st')"
    using that
  proof (cases rule: generate_outcome)
    case (failed e)
    then show ?thesis by simp
  next
    case (persisted facts summary rows)
    from persisted(4) have g: "g = new_generation new_id etype eid summary now" by simp
    from create_rows [OF persisted(3)] have "g \<in> set rows"
      unfolding g by auto
    with persisted(5) new_generation_pending [of new_id etype eid summary now] show ?thesis
      unfolding g by (auto simp add: is_pending_def new_generation_fields)
  qed
  have returns:
    "\<exists>st'. generate c policy etype eid new_id now st
             = (Inr (new_generation new_id etype eid summary now), st')"
    if "getCanonical c etype eid = Some facts
      \<and> complete_text c (build_prompt c facts (getRecent c etype eid (note_window c)))
          = Some summary
      \<and> \<not> list_ex (collides (new_generation new_id etype eid summary now)) (store st)"
  proof -
    from that obtain rows where
      "create policy (new_generation new_id etype eid summary now) (store st) = Inr rows"
      using create_without_collision by blast
    with that show ?thesis
      by (simp add: generate_def Let_def)
  qed
  show ?thesis using returned returns by blast
qed

theorem generate_returns_pending_generation_witness:
  "getCanonical studio ''character'' ''1'' = Some ''Rick''
   \<and> complete_text studio
        (build_prompt studio ''Rick''
           (getRecent studio ''character'' ''1'' (note_window studio))) = Some ''Rick!''
   \<and> \<not> list_ex (collides rick_pending) (store initial_state)
   \<and> generate studio Reject ''character'' ''1'' ''g1'' ''t0'' initial_state
     = (Inr rick_pending, rick_requested)
   \<and> scores_status rick_pending = INITIATED
   \<and> factual_score rick_pending = pending_sentinel
   \<and> completeness_score rick_pending = pending_sentinel
   \<and> creativity_score rick_pending = pending_sentinel
   \<and> relevance_score rick_pending = pending_sentinel
   \<and> rick_pending \<in> set (store rick_requested)
   \<and> queue rick_requested = queue initial_state @ [scoring_job_for rick_pending ''Rick'']
   \<and> worker_log rick_requested = worker_log initial_state"
proof -
  have known: "getCanonical studio ''character'' ''1'' = Some ''Rick''"
    by (simp add: studio_def catalogue_def)
  have answered: "complete_text studio
        (build_prompt studio ''Rick''
           (getRecent studio ''character'' ''1'' (note_window studio))) = Some ''Rick!''"
    by (simp add: studio_def narrator_def facts_prompt_def)
  have free: "\<not> list_ex (collides rick_pending) (store initial_state)"
    by (simp add: initial_state_def)
  have q: "queue rick_requested = queue initial_state @ [scoring_job_for rick_pending ''Rick'']"
    by (simp add: rick_requested_def initial_state_def)
  from known answered free q generate_rick
    generate_returns_pending_generation
      [where c = studio and policy = Reject and etype = "''character''" and eid = "''1''"
         and new_id = "''g1''" and now = "''t0''" and st = initial_state
         and g = rick_pending and st' = rick_requested
         and facts = "''Rick''" and summary = "''Rick!''"]
  show ?thesis
    by (simp add: initial_state_def)
qed

text \<open>
  Claim C5. When the entity is known and the text-generation call fails,
  \<open>generate\<close> returns \<open>UpstreamProviderError\<close> to its caller and the state after the call
  is the state before it: no record is persisted and no job is enqueued. More generally,
  every error return of \<open>generate\<close> leaves the state unchanged.
\<close>

theorem generate_upstream_failure_persists_nothing:
  "(getCanonical c etype eid = Some facts
      \<and> complete_text c (build_prompt c facts (getRecent c etype eid (note_window c))) = None
      \<longrightarrow> generate c policy etype eid new_id now st = (Inl UpstreamProviderError, st))
   \<and> (fst (generate c policy etype eid new_id now st) = Inl e
      \<longrightarrow> snd (generate c policy etype eid new_id now st) = st
        \<and> store (snd (generate c policy etype eid new_id now st)) = store st)"
proof -
  have upstream: "generate c policy etype eid new_id now st = (Inl UpstreamProviderError, st)"
    if "getCanonical c etype eid = Some facts
      \<and> complete_text c (build_prompt c facts (getRecent c etype eid (note_window c))) = None"
    using that by (simp add: generate_def Let_def)
  have unchanged: "snd (generate c policy etype eid new_id now st) = st"
    if err: "fst (generate c policy etype eid new_id now st) = Inl e"
  proof -
    obtain res st' where r: "generate c policy etype eid new_id now st = (res, st')"
      by (cases "generate c policy etype eid new_id now st")
    from r show ?thesis
    proof (cases rule: generate_outcome)
      case (failed e')
      with r show ?thesis by simp
    next
      case (persisted facts summary rows)
      with r err show ?thesis by simp
    qed
  qed
  show ?thesis using upstream unchanged by simp
qed

theorem generate_upstream_failure_persists_nothing_witness:
  "getCanonical studio_down ''character'' ''1'' = Some ''Rick''
   \<and> complete_text studio_down
        (build_prompt studio_down ''Rick''
           (getRecent studio_down ''character'' ''1'' (note_window studio_down))) = None
   \<and> generate studio_down Reject ''character'' ''1'' ''g1'' ''t0'' initial_state
        = (Inl UpstreamProviderError, initial_state)
   \<and> store (snd (generate studio_down Reject ''character'' ''1'' ''g1'' ''t0'' initial_state))
        = []"
proof -
  have known: "getCanonical studio_down ''character'' ''1'' = Some ''Rick''"
    by (simp add: studio_down_def catalogue_def)
  have down: "complete_text studio_down
        (build_prompt studio_down ''Rick''
           (getRecent studio_down ''character'' ''1'' (note_window studio_down))) = None"
    by (simp add: studio_down_def narrator_down_def)
  from known down
    generate_upstream_failure_persists_nothing
      [where c = studio_down and etype = "''character''" and eid = "''1''"
         and facts = "''Rick''" and policy = Reject and new_id = "''g1''" and now = "''t0''"
         and st = initial_state and e = UpstreamProviderError]
  show ?thesis by (simp add: initial_state_def)
qed

subsection \<open>Claims about the worker\<close>

text \<open>
  Claim C6. When the processing of the job at the head of the queue raises an error, the
  worker logs the error and drops the job: the store is unchanged (the job's generation
  stays as it was, INITIATED), the job is not put back (the queue is exactly the rest;
  the state has no other place to keep a job), and the worker goes on: draining the queue
  from there gives the same store as if the failed job had never been enqueued, and always
  ends with an empty queue. The error is a value in the worker_log; the loop itself has no error
  outcome.
\<close>

theorem failed_job_is_logged_and_discarded:
  assumes "queue st = job # rest"
    and "process_job evaluate now job (store st) = Inl e"
  shows "store (worker_step evaluate now st) = store st
       \<and> queue (worker_step evaluate now st) = rest
       \<and> worker_log (worker_step evaluate now st) = worker_log st @ [(content_id job, e)]
       \<and> run_worker evaluate now st
           = run_worker evaluate now
               (st\<lparr>queue := rest, worker_log := worker_log st @ [(content_id job, e)]\<rparr>)
       \<and> store (run_worker evaluate now st)
           = store (run_worker evaluate now (st\<lparr>queue := rest\<rparr>))
       \<and> queue (run_worker evaluate now st) = []
       \<and> (job_type j = ''SCORE_GENERATED_CONTENT''
            \<and> evaluate (generated_text j) (factual_context j) = Inl e'
          \<longrightarrow> process_job evaluate now j rows = Inl e')"
proof -
  have raised: "process_job evaluate now j rows = Inl e'"
    if "job_type j = ''SCORE_GENERATED_CONTENT''
            \<and> evaluate (generated_text j) (factual_context j) = Inl e'"
    using that by (simp add: process_job_def)
  have stepped: "worker_step evaluate now st
      = st\<lparr>queue := rest, worker_log := worker_log st @ [(content_id job, e)]\<rparr>"
    using assms by (simp add: worker_step_def)
  have run: "run_worker evaluate now st
      = run_worker evaluate now (st\<lparr>queue := rest, worker_log := worker_log st @ [(content_id job, e)]\<rparr>)"
    using run_worker_unfold [OF assms(1), of evaluate now] stepped by simp
  have "store (run_worker evaluate now
                 (st\<lparr>queue := rest, worker_log := worker_log st @ [(content_id job, e)]\<rparr>))
      = store (run_worker evaluate now (st\<lparr>queue := rest\<rparr>))"
    by (rule run_worker_ignores_log) simp_all
  with run have same: "store (run_worker evaluate now st)
      = store (run_worker evaluate now (st\<lparr>queue := rest\<rparr>))"
    by simp
  show ?thesis
    using stepped run same run_worker_drains [of evaluate now st] raised by simp
qed

theorem failed_job_is_logged_and_discarded_witness:
  "job_type (scoring_job_for morty_pending ''Morty'') = ''SCORE_GENERATED_CONTENT''
   \<and> grader (generated_text (scoring_job_for morty_pending ''Morty''))
        (factual_context (scoring_job_for morty_pending ''Morty'')) = Inl UpstreamProviderError
   \<and> queue both_requested
     = scoring_job_for morty_pending ''Morty'' # [scoring_job_for rick_pending ''Rick'']
   \<and> process_job grader ''t9'' (scoring_job_for morty_pending ''Morty'') (store both_requested)
       = Inl UpstreamProviderError
   \<and> store (worker_step grader ''t9'' both_requested) = [morty_pending, rick_pending]
   \<and> scores_status morty_pending = INITIATED
   \<and> worker_log (worker_step grader ''t9'' both_requested) = [(''g2'', UpstreamProviderError)]
   \<and> store (run_worker grader ''t9'' both_requested) = [morty_pending, rick_scored]
   \<and> scores_status rick_scored = GENERATED
   \<and> queue (run_worker grader ''t9'' both_requested) = []"
proof -
  have q: "queue both_requested
     = scoring_job_for morty_pending ''Morty'' # [scoring_job_for rick_pending ''Rick'']"
    by (simp add: both_requested_def)
  have f: "process_job grader ''t9'' (scoring_job_for morty_pending ''Morty'')
             (store both_requested) = Inl UpstreamProviderError"
    by (rule morty_job_fails)
  have rest: "store (run_worker grader ''t9''
                (both_requested\<lparr>queue := [scoring_job_for rick_pending ''Rick'']\<rparr>))
      = [morty_pending, rick_scored]"
    by (simp add: run_worker_def worker_step_def both_requested_def rick_job_succeeds)
  have ids: "content_id (scoring_job_for morty_pending ''Morty'') = ''g2''"
    by (simp add: scoring_job_for_def morty_pending_def new_generation_def)
  note dropped = failed_job_is_logged_and_discarded [OF q f]
  from dropped [THEN conjunct1]
  have s1: "store (worker_step grader ''t9'' both_requested) = store both_requested" .
  from dropped [THEN conjunct2, THEN conjunct2, THEN conjunct1]
  have s2: "worker_log (worker_step grader ''t9'' both_requested)
              = worker_log both_requested @ [(''g2'', UpstreamProviderError)]"
    by (simp only: ids)
  from dropped [THEN conjunct2, THEN conjunct2, THEN conjunct2, THEN conjunct2, THEN conjunct1]
  have s3: "store (run_worker grader ''t9'' both_requested) = [morty_pending, rick_scored]"
    by (simp only: rest)
  from dropped [THEN conjunct2, THEN conjunct2, THEN conjunct2, THEN conjunct2, THEN conjunct2,
      THEN conjunct1]
  have s4: "queue (run_worker grader ''t9'' both_requested) = []" .
  have s5: "scores_status morty_pending = INITIATED" "scores_status rick_scored = GENERATED"
    by (simp_all add: morty_pending_def new_generation_def rick_scored_def write_scores_def)
  have s6: "job_type (scoring_job_for morty_pending ''Morty'') = ''SCORE_GENERATED_CONTENT''"
    "grader (generated_text (scoring_job_for morty_pending ''Morty''))
        (factual_context (scoring_job_for morty_pending ''Morty'')) = Inl UpstreamProviderError"
    by (simp_all add: scoring_job_for_def grader_def morty_pending_def new_generation_def)
  from q f s1 s2 s3 s4 s5 s6 show ?thesis
    by (simp add: both_requested_def)
qed

subsection \<open>Claims about the scores of a generation\<close>

lemma float_minus_one: "float ''-1'' = Some (Finite (- 1))"
  by (simp add: float_eval)

lemma strip_minus_one: "strip ''-1'' = ''-1''"
  by (simp add: strip_def isspace_def)










subsection \<open>The pending sentinel and the score display\<close>

lemma score_cell_pending_iff: "score_cell s = Processing \<longleftrightarrow> \<not> 0 \<le> s"
  by (simp add: score_cell_def)

text \<open>
  Claim C10, as stated: every real score is non-negative, so that the test \<open>score >= 0\<close>
  separates scored fields from pending ones. The creativity score is the judge's reply as
  parsed: for the reply \<open>-1\<close> the score is \<open>-1\<close>, which is negative, equals the sentinel,
  and is displayed as still processing.
\<close>

theorem negative_creativity_score_counterexample:
  "score_creativity_async (fixed_reply ''-1'') ''Wubba lubba dub dub'' = Inr (Finite (- 1))
   \<and> \<not> (0 :: real) \<le> - 1
   \<and> pending_sentinel = - 1
   \<and> score_cell (- 1) = Processing"
  by (simp add: score_creativity_async_def fixed_reply_def strip_minus_one float_minus_one
      pending_sentinel_def score_cell_def)

text \<open>
  Claim C10, amended. The pending sentinel is -1: a generation returned by \<open>generate\<close> has
  all four scores equal to -1. The frontend shows a score field as scored exactly when
  \<open>score >= 0\<close>; it shows the sentinel as pending, and every score in [0,1] as a
  percentage, so the sentinel never collides with a score in [0,1]. The factual score is
  always non-negative and is never shown as pending.
\<close>

theorem pending_sentinel_convention:
  "pending_sentinel = - 1
   \<and> (generate c policy etype eid new_id now st = (Inr g, st') \<longrightarrow>
        factual_score g = - 1 \<and> completeness_score g = - 1
        \<and> creativity_score g = - 1 \<and> relevance_score g = - 1)
   \<and> score_cell pending_sentinel = Processing
   \<and> (score_cell s = Processing \<longleftrightarrow> \<not> 0 \<le> s)
   \<and> (0 \<le> s \<and> s \<le> 1 \<longrightarrow>
        s \<noteq> pending_sentinel \<and> score_cell s = Percentage (round (s * 100)))
   \<and> 0 \<le> compute_factual_score extract_facts check_contradictions generated ctx
   \<and> score_cell (compute_factual_score extract_facts check_contradictions generated ctx)
        \<noteq> Processing"
proof -
  have fresh: "factual_score g = - 1 \<and> completeness_score g = - 1
        \<and> creativity_score g = - 1 \<and> relevance_score g = - 1"
    if "generate c policy etype eid new_id now st = (Inr g, st')"
    using that
  proof (cases rule: generate_outcome)
    case (failed e)
    then show ?thesis by simp
  next
    case (persisted facts summary rows)
    then show ?thesis
      by (simp add: new_generation_def pending_sentinel_def)
  qed
  have factual: "0 \<le> compute_factual_score extract_facts check_contradictions generated ctx"
    by (simp add: compute_factual_score_def)
  then have shown:
    "score_cell (compute_factual_score extract_facts check_contradictions generated ctx)
       \<noteq> Processing"
    by (simp only: score_cell_pending_iff not_not)
  have in_range: "s \<noteq> pending_sentinel \<and> score_cell s = Percentage (round (s * 100))"
    if "0 \<le> s \<and> s \<le> 1"
    using that by (auto simp add: pending_sentinel_def score_cell_def)
  show ?thesis
    using fresh factual shown in_range score_cell_pending_iff [of s]
    by (simp add: pending_sentinel_def score_cell_def)
qed

theorem pending_sentinel_convention_witness:
  "generate studio Reject ''character'' ''1'' ''g1'' ''t0'' initial_state
     = (Inr rick_pending, rick_requested)
   \<and> factual_score rick_pending = - 1 \<and> completeness_score rick_pending = - 1
   \<and> creativity_score rick_pending = - 1 \<and> relevance_score rick_pending = - 1
   \<and> (0 :: real) \<le> 17 / 20 \<and> (17 / 20 :: real) \<le> 1
   \<and> score_cell (17 / 20) = Percentage 85
   \<and> score_cell (- 1) = Processing
   \<and> score_cell (compute_factual_score single_fact differing_facts ''Rick'' ''Morty'')
        \<noteq> Processing"
proof -
  have r: "round ((17 / 20 :: real) * 100) = 85"
    by simp
  from generate_rick r
    pending_sentinel_convention
      [where c = studio and policy = Reject and etype = "''character''" and eid = "''1''"
         and new_id = "''g1''" and now = "''t0''" and st = initial_state
         and g = rick_pending and st' = rick_requested and s = "17 / 20"
         and extract_facts = single_fact and check_contradictions = differing_facts
         and generated = "''Rick''" and ctx = "''Morty''"]
  show ?thesis
    by (simp add: pending_sentinel_def)
qed

end
